theory Spec2Isabelle
  imports Main "HOL-Library.Word"
begin

unbundle bit_operations_syntax

section \<open>Guest threads of the emulator kernel (kernel/src/thread/thread.cpp)\<close>

text \<open>
  A shallow embedding of \<^verbatim>\<open>thread.cpp\<close>: guest thread creation, launch, the run loop,
  the wake-up fan-out and the stack relocation helper. Guest addresses, thread ids and
  the C \<^verbatim>\<open>int\<close> arguments are 32-bit words; arithmetic on them wraps as the machine's
  does. Host pointers into guest memory (\<^verbatim>\<open>Ptr<T>::get(mem)\<close>, the memory base plus the
  guest address) are natural numbers, so that \<^verbatim>\<open>memset\<close> and \<^verbatim>\<open>memcpy\<close> walk upwards
  without wrapping.
\<close>

subsection \<open>Data model\<close>

type_synonym Address = "32 word"
type_synonym SceUID = "32 word"
type_synonym SceSize = "32 word"
type_synonym SDL_Thread = nat

text \<open>The status codes this file returns, by their names in the kernel's headers.\<close>

datatype SceKernelErrorCode =
    SCE_KERNEL_OK
  | SCE_KERNEL_ERROR_ERROR
  | SCE_KERNEL_ERROR_UNKNOWN_THREAD_ID
  | SCE_KERNEL_ERROR_THREAD_ERROR

text \<open>\<^verbatim>\<open>enum class ThreadToDo\<close>, in the order of the switch in \<^verbatim>\<open>run_thread\<close>.\<close>

datatype ThreadToDo = ToDo_exit | ToDo_run | ToDo_step | ToDo_wait

text \<open>
  Modelled from the spec: the CPU execution backend (\<^verbatim>\<open>cpu/functions.h\<close>) is not part of
  this file. Its register file, stack pointer, thread-pointer register and tracing
  toggles are the fields of a record, and \<^verbatim>\<open>read_reg\<close>, \<^verbatim>\<open>write_reg\<close>, \<^verbatim>\<open>read_sp\<close>,
  \<^verbatim>\<open>write_sp\<close>, \<^verbatim>\<open>write_tpidruro\<close>, \<^verbatim>\<open>set_log_code\<close> and \<^verbatim>\<open>set_log_mem\<close> read or write
  one field each. What executes guest code (\<^verbatim>\<open>init_cpu\<close>, \<^verbatim>\<open>run\<close>, \<^verbatim>\<open>step\<close>,
  \<^verbatim>\<open>hit_breakpoint\<close>, \<^verbatim>\<open>save_context\<close>) is a parameter, see \<open>Env\<close> below.
\<close>

record CPUState =
  regs :: "nat \<Rightarrow> 32 word"
  sp :: Address
  tpidruro :: Address
  log_code :: bool
  log_mem :: bool

type_synonym CPUContext = CPUState

definition read_reg :: "CPUState \<Rightarrow> nat \<Rightarrow> 32 word" where
  "read_reg c idx = regs c idx"

definition write_reg :: "CPUState \<Rightarrow> nat \<Rightarrow> 32 word \<Rightarrow> CPUState" where
  "write_reg c idx v = c\<lparr>regs := (regs c)(idx := v)\<rparr>"

definition read_sp :: "CPUState \<Rightarrow> Address" where
  "read_sp c = sp c"

definition write_sp :: "CPUState \<Rightarrow> Address \<Rightarrow> CPUState" where
  "write_sp c v = c\<lparr>sp := v\<rparr>"

definition write_tpidruro :: "CPUState \<Rightarrow> Address \<Rightarrow> CPUState" where
  "write_tpidruro c v = c\<lparr>tpidruro := v\<rparr>"

definition set_log_code :: "CPUState \<Rightarrow> bool \<Rightarrow> CPUState" where
  "set_log_code c b = c\<lparr>log_code := b\<rparr>"

definition set_log_mem :: "CPUState \<Rightarrow> bool \<Rightarrow> CPUState" where
  "set_log_mem c b = c\<lparr>log_mem := b\<rparr>"

text \<open>
  Guest memory: the bytes behind the host pointers, and the allocator's own bookkeeping
  (address, size and label of every allocation), which only \<^verbatim>\<open>alloc\<close> and \<^verbatim>\<open>free\<close> touch.
\<close>

record MemState =
  memory :: "nat \<Rightarrow> 8 word"
  allocations :: "(Address \<times> 32 word \<times> string) list"

text \<open>
  The conversion of an \<^verbatim>\<open>int\<close> to \<^verbatim>\<open>size_t\<close> on the 64-bit host, as at the third argument
  of \<^verbatim>\<open>memset\<close>: a negative size becomes a huge one.
\<close>

definition size_t_of_int :: "32 word \<Rightarrow> nat" where
  "size_t_of_int n = nat (sint n mod 2 ^ 64)"

definition memset :: "MemState \<Rightarrow> Address \<Rightarrow> 8 word \<Rightarrow> nat \<Rightarrow> MemState" where
  "memset mem dst b n =
     mem\<lparr>memory := (\<lambda>a. if unat dst \<le> a \<and> a < unat dst + n then b else memory mem a)\<rparr>"

text \<open>
  \<^verbatim>\<open>memcpy\<close> reads every source byte from the memory before the call; C leaves the copy
  between overlapping ranges undefined.
\<close>

definition memcpy :: "MemState \<Rightarrow> Address \<Rightarrow> Address \<Rightarrow> nat \<Rightarrow> MemState" where
  "memcpy mem dst src n =
     mem\<lparr>memory := (\<lambda>a. if unat dst \<le> a \<and> a < unat dst + n
                          then memory mem (unat src + (a - unat dst)) else memory mem a)\<rparr>"

text \<open>
  \<^verbatim>\<open>struct ThreadState\<close> (\<^verbatim>\<open>thread_state.h\<close>), by the fields this file uses. The mutex and
  the condition variable hold no data; what is done to them is an \<open>event\<close>. The waiting
  parties are pointers to thread records: a record is named by the id under which the
  kernel's table holds it.
\<close>

record ThreadState =
  name :: string
  entry_point :: Address
  priority :: "32 word"
  stack_size :: "32 word"
  stack :: Address
  cpu :: CPUState
  cpu_context :: CPUContext
  to_do :: ThreadToDo
  thread_waiting_threads :: "SceUID list"

text \<open>Modelled from the spec: the member defaults of \<^verbatim>\<open>struct ThreadState\<close> are declared
  in \<^verbatim>\<open>thread_state.h\<close>, which is not part of this file. A record that has just been
  made is in run-state run: a created thread, once launched, executes without anybody
  arming it first.\<close>

definition ThreadState_default_to_do :: ThreadToDo where
  "ThreadState_default_to_do = ToDo_run"

record WaitingThreadState =
  waiting_name :: string

record KernelState =
  next_uid :: SceUID
  threads :: "SceUID \<rightharpoonup> ThreadState"
  waiting_threads :: "SceUID \<rightharpoonup> WaitingThreadState"
  running_threads :: "SceUID \<rightharpoonup> SDL_Thread"
  wait_for_debugger :: bool
  watch_code :: bool
  watch_memory :: bool

record SceKernelThreadOptParam =
  opt_size :: "32 word"
  opt_attr :: "32 word"

record ThreadParams =
  thid :: SceUID
  arglen :: SceSize
  argp :: Address

text \<open>What a backend call hands back: the result code, the backend afterwards, and the
  run-state that a service call of the guest code or another host thread stored in the
  record while the guest code ran, if any did (the run loop holds no lock meanwhile).\<close>

record BackendResult =
  res :: int
  cpu_after :: CPUState
  to_do_stored :: "ThreadToDo option"

text \<open>
  What this file takes from elsewhere: the two priority constants and the build flag of
  the headers, the guest memory allocator, the backend's execution primitives and the
  host's thread creation. Every definition below holds for any choice of them. The
  import hook \<^verbatim>\<open>call_svc\<close> that \<^verbatim>\<open>create_thread\<close> stores in \<^verbatim>\<open>inject\<close> is used by the
  backend only, so it is part of \<open>init_cpu\<close>, \<open>run\<close> and \<open>step\<close> here.
\<close>

record Env =
  SCE_KERNEL_DEFAULT_PRIORITY :: "32 word"
  SCE_KERNEL_DEFAULT_PRIORITY_USER_INTERNAL :: "32 word"
  USE_GDBSTUB :: bool
  alloc :: "MemState \<Rightarrow> 32 word \<Rightarrow> string \<Rightarrow> Address \<times> MemState"
  free :: "MemState \<Rightarrow> Address \<Rightarrow> MemState"
  init_cpu :: "SceUID \<Rightarrow> Address \<Rightarrow> Address \<Rightarrow> MemState \<Rightarrow> CPUState option"
  save_context :: "CPUState \<Rightarrow> CPUContext"
  run :: "CPUState \<Rightarrow> Address \<Rightarrow> BackendResult"
  step :: "CPUState \<Rightarrow> Address \<Rightarrow> BackendResult"
  hit_breakpoint :: "CPUState \<Rightarrow> bool"
  SDL_CreateThread :: "string \<Rightarrow> ThreadParams \<Rightarrow> SDL_Thread option"

subsection \<open>Helpers of the kernel\<close>

text \<open>Modelled from the spec: \<^verbatim>\<open>KernelState::get_next_uid\<close> (\<^verbatim>\<open>kernel/state.h\<close>) is not
  part of this file; the kernel's id source is a counter.\<close>

definition get_next_uid :: "KernelState \<Rightarrow> SceUID \<times> KernelState" where
  "get_next_uid kern = (next_uid kern, kern\<lparr>next_uid := next_uid kern + 1\<rparr>)"

text \<open>\<^verbatim>\<open>std::map::emplace\<close>: an existing key keeps its value.\<close>

definition emplace :: "'k \<Rightarrow> 'v \<Rightarrow> ('k \<rightharpoonup> 'v) \<Rightarrow> ('k \<rightharpoonup> 'v)" where
  "emplace k v m = (case m k of None \<Rightarrow> m(k \<mapsto> v) | Some _ \<Rightarrow> m)"

text \<open>The \<^verbatim>\<open>{}\<close> of \<^verbatim>\<open>fmt::format\<close> at an \<^verbatim>\<open>int\<close>: decimal, with a minus sign.\<close>

fun fmt_nat :: "nat \<Rightarrow> string" where
  "fmt_nat n = (if n < 10 then [char_of (48 + n)]
                else fmt_nat (n div 10) @ [char_of (48 + n mod 10)])"

definition fmt_int :: "32 word \<Rightarrow> string" where
  "fmt_int w = (if sint w < 0 then CHR ''-'' # fmt_nat (nat (- sint w)) else fmt_nat (nat (sint w)))"

text \<open>The two diagnostic labels that \<^verbatim>\<open>create_thread\<close> formats for the allocator.\<close>

definition stack_alloc_name :: "string \<Rightarrow> SceUID \<Rightarrow> string" where
  "stack_alloc_name nm tid = ''Stack for thread '' @ nm @ '' (#'' @ fmt_int tid @ '')''"

definition tls_alloc_name :: "string \<Rightarrow> SceUID \<Rightarrow> string" where
  "tls_alloc_name nm tid = ''TLS for thread '' @ nm @ '' (#'' @ fmt_int tid @ '')''"

subsection \<open>create_thread\<close>

text \<open>
  The result is the \<^verbatim>\<open>SceUID\<close> the source returns: the error code (left) or the new
  thread id (right). When \<^verbatim>\<open>init_cpu\<close> fails, the record goes out of scope and its stack
  handle's deleter frees the stack.
\<close>

definition create_thread ::
  "Env \<Rightarrow> Address \<Rightarrow> KernelState \<Rightarrow> MemState \<Rightarrow> string \<Rightarrow> 32 word \<Rightarrow> 32 word \<Rightarrow>
   SceKernelThreadOptParam option \<Rightarrow> (SceKernelErrorCode + SceUID) \<times> KernelState \<times> MemState" where
  "create_thread env entry kern mem nm init_priority stack_sz option =
    (let (thid, kernel1) = get_next_uid kern;
         prio = (if init_priority AND (SCE_KERNEL_DEFAULT_PRIORITY env AND 0xF0000000) \<noteq> 0
                 then init_priority - SCE_KERNEL_DEFAULT_PRIORITY env
                        + SCE_KERNEL_DEFAULT_PRIORITY_USER_INTERNAL env
                 else init_priority);
         (stk, mem1) = alloc env mem stack_sz (stack_alloc_name nm thid);
         stack_top = stk + stack_sz;
         mem2 = memset mem1 stk 0xcc (size_t_of_int stack_sz)
     in case init_cpu env thid entry stack_top mem2 of
          None \<Rightarrow> (Inl SCE_KERNEL_ERROR_ERROR, kernel1, free env mem2 stk)
        | Some cpu0 \<Rightarrow>
           (let cpu1 = (if watch_code kernel1 then set_log_code cpu0 True else cpu0);
                cpu2 = (if watch_memory kernel1 then set_log_mem cpu1 True else cpu1);
                cpu3 = (case option of
                          None \<Rightarrow> cpu2
                        | Some opt \<Rightarrow> write_reg (write_reg cpu2 0 (opt_attr opt)) 1 (opt_size opt));
                ctx = save_context env cpu3;
                (tls, mem3) = alloc env mem2 0x800 (tls_alloc_name nm thid);
                tls_address = tls + 0x800;
                cpu4 = write_tpidruro cpu3 tls_address;
                thread = \<lparr>name = nm, entry_point = entry, priority = prio,
                          stack_size = stack_sz, stack = stk, cpu = cpu4, cpu_context = ctx,
                          to_do = ThreadState_default_to_do, thread_waiting_threads = []\<rparr>;
                waiting = \<lparr>waiting_name = nm\<rparr>
            in (Inr thid,
                kernel1\<lparr>threads := emplace thid thread (threads kernel1),
                        waiting_threads := emplace thid waiting (waiting_threads kernel1)\<rparr>,
                mem3)))"

subsection \<open>Synchronisation events\<close>

text \<open>
  What an operation does to mutexes, condition variables, the rendezvous semaphore,
  host threads and the backend (a call of \<^verbatim>\<open>run\<close> or \<^verbatim>\<open>step\<close>, with its result code), in
  program order. A record's mutex and condition variable are named by the record's id.
\<close>

datatype event =
    mutex_lock SceUID
  | mutex_unlock SceUID
  | notify_one SceUID
  | notify_all SceUID
  | SDL_SemPost
  | SDL_SemWait
  | SDL_WaitThread "SDL_Thread option"
  | backend_run int
  | backend_step int

text \<open>
  How a call ends: it returns a value, it blocks on a condition variable that nobody
  signals any more, or the process stops: a failed \<^verbatim>\<open>assert\<close>, which is modelled as
  checked; the dereference of the null pointer that a failed lookup returns; or the
  \<^verbatim>\<open>std::system_error\<close> of a \<^verbatim>\<open>std::unique_lock\<close> that is unlocked, or waited on, while it
  does not own its mutex, which nothing catches.
\<close>

datatype abort_reason = assert_failed | null_dereference | lock_not_owned

datatype 'a outcome = Returned 'a | Blocked | Aborted abort_reason

subsection \<open>raise_waiting_threads\<close>

fun notify_waiters :: "SceUID list \<Rightarrow> event list" where
  "notify_waiters [] = []"
| "notify_waiters (t # ts) = [mutex_lock t, notify_one t, mutex_unlock t] @ notify_waiters ts"

definition raise_waiting_threads :: "ThreadState \<Rightarrow> ThreadState \<times> event list" where
  "raise_waiting_threads thread =
     (thread\<lparr>thread_waiting_threads := []\<rparr>, notify_waiters (thread_waiting_threads thread))"

subsection \<open>run_thread\<close>

text \<open>
  One pass through the \<^verbatim>\<open>run\<close>/\<^verbatim>\<open>step\<close> case of the switch: \<open>Some b\<close> is \<^verbatim>\<open>return b\<close>,
  \<open>None\<close> is the \<^verbatim>\<open>break\<close> that goes round the loop again. The conditional on the thread's
  name in the source has an empty effect and is left out.
\<close>

definition run_or_step :: "Env \<Rightarrow> ThreadState \<Rightarrow> bool option \<times> ThreadState \<times> event" where
  "run_or_step env thread =
    (let (r, thread1, ev) =
           (if to_do thread = ToDo_step
            then (let b = step env (cpu thread) (entry_point thread)
                  in (res b, thread\<lparr>cpu := cpu_after b, to_do := ToDo_wait\<rparr>,
                      backend_step (res b)))
            else (let b = run env (cpu thread) (entry_point thread)
                  in (res b, thread\<lparr>cpu := cpu_after b,
                                    to_do := (case to_do_stored b of
                                                None \<Rightarrow> to_do thread | Some t \<Rightarrow> t)\<rparr>,
                      backend_run (res b))));
         thread2 = (if USE_GDBSTUB env \<and> hit_breakpoint env (cpu thread1)
                    then thread1\<lparr>to_do := ToDo_wait\<rparr> else thread1)
     in if r < 0 then (Some False, thread2\<lparr>to_do := ToDo_exit\<rparr>, ev)
        else if to_do thread2 = ToDo_step then (None, thread2, ev)
        else (Some True, thread2, ev))"

text \<open>
  The loop. \<open>wakes\<close> is what the rest of the emulator does to a waiting thread: the
  run-state the loop finds each time \<^verbatim>\<open>something_to_do.wait\<close> returns. When nobody
  signals any more, the host thread stays blocked. \<open>owned\<close> says whether the local
  \<^verbatim>\<open>lock\<close> owns the record's mutex: it does when the loop starts, the \<^verbatim>\<open>run\<close>/\<^verbatim>\<open>step\<close> case
  unlocks it and nothing locks it again, so a second pass through that case, or a pass
  through the wait case after it, finds the lock without its mutex. The events are the
  backend calls of the loop, in order.
\<close>

function run_thread_loop ::
  "Env \<Rightarrow> ThreadToDo list \<Rightarrow> bool \<Rightarrow> ThreadState \<Rightarrow> bool outcome \<times> ThreadState \<times> event list" where
  "run_thread_loop env wakes owned thread =
    (if to_do thread = ToDo_exit then (Returned True, thread, [])
     else if to_do thread = ToDo_run \<or> to_do thread = ToDo_step then
       (if \<not> owned then (Aborted lock_not_owned, thread, [])
        else
          (case run_or_step env thread of
             (Some b, thread', ev) \<Rightarrow> (Returned b, thread', [ev])
           | (None, thread', ev) \<Rightarrow>
               (case run_thread_loop env wakes False thread' of
                  (out, thread'', evs) \<Rightarrow> (out, thread'', ev # evs))))
     else
       (if \<not> owned then (Aborted lock_not_owned, thread, [])
        else
          (case wakes of
             [] \<Rightarrow> (Blocked, thread, [])
           | w # ws \<Rightarrow> run_thread_loop env ws True (thread\<lparr>to_do := w\<rparr>))))"
  by pat_completeness auto
termination
  by (relation "measure (\<lambda>(env, wakes, owned, thread).
        2 * length wakes + (if owned then 1 else 0))") auto

declare run_thread_loop.simps [simp del]

definition run_thread ::
  "Env \<Rightarrow> ThreadToDo list \<Rightarrow> ThreadState \<Rightarrow> bool outcome \<times> ThreadState \<times> event list" where
  "run_thread env wakes thread = run_thread_loop env wakes True thread"

subsection \<open>thread_function and the teardown of a running thread\<close>

text \<open>
  A record is shared between the kernel's table and whoever holds a pointer to it, so a
  write through the pointer is a write to the table's entry.
\<close>

definition store_thread :: "KernelState \<Rightarrow> SceUID \<Rightarrow> ThreadState \<Rightarrow> KernelState" where
  "store_thread kern tid thread = kern\<lparr>threads := (threads kern)(tid \<mapsto> thread)\<rparr>"

text \<open>
  The trampoline on the new host thread. \<^verbatim>\<open>lock_and_find\<close> returns a null pointer for an
  id the table does not hold, and the next line dereferences it.
\<close>

definition thread_function ::
  "Env \<Rightarrow> ThreadParams \<Rightarrow> KernelState \<Rightarrow> ThreadToDo list \<Rightarrow>
   32 word outcome \<times> KernelState \<times> event list" where
  "thread_function env params kern wakes =
    (case threads kern (thid params) of
       None \<Rightarrow> (Aborted null_dereference, kern, [SDL_SemPost])
     | Some thread \<Rightarrow>
        (let thread1 = thread\<lparr>cpu := write_reg (write_reg (cpu thread) 0 (arglen params))
                                        1 (argp params)\<rparr>;
             (thread2, kernel1) =
               (if wait_for_debugger kern
                then (thread1\<lparr>to_do := ToDo_wait\<rparr>, kern\<lparr>wait_for_debugger := False\<rparr>)
                else (thread1, kern))
         in case run_thread env wakes thread2 of
              (Blocked, thread3, calls) \<Rightarrow>
                (Blocked, store_thread kernel1 (thid params) thread3, SDL_SemPost # calls)
            | (Aborted a, thread3, calls) \<Rightarrow>
                (Aborted a, store_thread kernel1 (thid params) thread3, SDL_SemPost # calls)
            | (Returned succeeded, thread3, calls) \<Rightarrow>
                if \<not> succeeded
                then (Aborted assert_failed, store_thread kernel1 (thid params) thread3,
                      SDL_SemPost # calls)
                else (let r0 = read_reg (cpu thread3) 0;
                          thread4 = thread3\<lparr>to_do := ToDo_exit\<rparr>;
                          (thread5, evs) = raise_waiting_threads thread4
                      in (Returned r0, store_thread kernel1 (thid params) thread5,
                          SDL_SemPost # calls @ [mutex_lock (thid params)] @ evs
                            @ [mutex_unlock (thid params)]))))"

text \<open>The deleter of a running thread's handle, \<^verbatim>\<open>delete_thread\<close> in \<^verbatim>\<open>start_thread\<close>.\<close>

definition delete_thread ::
  "SceUID \<Rightarrow> ThreadState \<Rightarrow> SDL_Thread option \<Rightarrow> ThreadState \<times> event list" where
  "delete_thread tid thread running_thread =
    (let thread1 = thread\<lparr>to_do := ToDo_exit\<rparr>;
         (thread2, evs) = raise_waiting_threads thread1
     in (thread2, [mutex_lock tid, mutex_unlock tid, notify_all tid] @ evs
                    @ [SDL_WaitThread running_thread]))"

subsection \<open>start_thread\<close>

text \<open>
  The result: how the call ends, the kernel afterwards, the parameters of the host
  thread that now runs \<open>thread_function\<close> (if one was spawned), and the events.

  The local handle \<^verbatim>\<open>running_thread\<close> is released when the function returns. Its type
  \<^verbatim>\<open>ThreadPtr\<close> is declared elsewhere: \<open>null_runs_deleter\<close> says whether releasing a handle
  that holds a null pointer runs the deleter (a \<^verbatim>\<open>std::shared_ptr\<close> does, a
  \<^verbatim>\<open>std::unique_ptr\<close> does not). When the running set already holds the id, \<^verbatim>\<open>emplace\<close>
  stores nothing and the release of the only handle runs the deleter.
\<close>

definition start_thread ::
  "Env \<Rightarrow> bool \<Rightarrow> KernelState \<Rightarrow> SceUID \<Rightarrow> SceSize \<Rightarrow> Address \<Rightarrow>
   SceKernelErrorCode outcome \<times> KernelState \<times> ThreadParams option \<times> event list" where
  "start_thread env null_runs_deleter kern tid len ap =
    (case waiting_threads kern tid of
       None \<Rightarrow> (Returned SCE_KERNEL_ERROR_UNKNOWN_THREAD_ID, kern, None, [])
     | Some waiting \<Rightarrow>
        (case threads kern tid of
           None \<Rightarrow> (Aborted assert_failed, kern, None, [])
         | Some thread \<Rightarrow>
            (let params = \<lparr>thid = tid, arglen = len, argp = ap\<rparr>
             in case SDL_CreateThread env (waiting_name waiting) params of
                  None \<Rightarrow>
                    (if null_runs_deleter
                     then (let (thread1, evs) = delete_thread tid thread None
                           in (Returned SCE_KERNEL_ERROR_THREAD_ERROR,
                               store_thread kern tid thread1, None, evs))
                     else (Returned SCE_KERNEL_ERROR_THREAD_ERROR, kern, None, []))
                | Some h \<Rightarrow>
                    (let kernel1 = kern\<lparr>waiting_threads := (waiting_threads kern)(tid := None),
                                       running_threads := emplace tid h (running_threads kern)\<rparr>
                     in if running_threads kern tid = None
                        then (Returned SCE_KERNEL_OK, kernel1, Some params, [SDL_SemWait])
                        else (let (thread1, evs) = delete_thread tid thread (Some h)
                              in (Returned SCE_KERNEL_OK, store_thread kernel1 tid thread1,
                                  Some params, SDL_SemWait # evs))))))"

subsection \<open>copy_stack\<close>

definition copy_stack ::
  "SceUID \<Rightarrow> SceUID \<Rightarrow> Address \<Rightarrow> KernelState \<Rightarrow> MemState \<Rightarrow>
   Address outcome \<times> KernelState \<times> MemState" where
  "copy_stack tid thread_id ap kern mem =
    (case threads kern tid of
       None \<Rightarrow> (Aborted null_dereference, kern, mem)
     | Some new_thread \<Rightarrow>
        (case threads kern thread_id of
           None \<Rightarrow> (Aborted null_dereference, kern, mem)
         | Some old_thread \<Rightarrow>
            (let old_stack_address = stack old_thread;
                 new_stack_address = stack new_thread;
                 old_sp = read_sp (cpu old_thread);
                 old_stack_size = old_stack_address + stack_size old_thread - old_sp;
                 new_sp = new_stack_address + stack_size new_thread - old_stack_size;
                 mem1 = memcpy mem new_sp old_sp (unat old_stack_size);
                 kernel1 = store_thread kern tid
                             (new_thread\<lparr>cpu := write_sp (cpu new_thread) new_sp\<rparr>);
                 new_argp =
                   (if old_stack_address < ap \<and> old_stack_address + stack_size old_thread > ap
                    then (let offset = old_stack_address + stack_size old_thread - ap
                          in new_stack_address + stack_size new_thread - offset)
                    else ap)
             in (Returned new_argp, kernel1, mem1))))"

subsection \<open>Reading the events\<close>

text \<open>A backend call that reported an internal failure: a negative result code.\<close>

fun is_failed_call :: "event \<Rightarrow> bool" where
  "is_failed_call (backend_run r) = (r < 0)"
| "is_failed_call (backend_step r) = (r < 0)"
| "is_failed_call _ = False"

text \<open>
  A check of a list of events against the mutexes held so far: every mutex is locked
  while free and unlocked while held, a condition variable is signalled with
  \<open>notify_one\<close> only while its own record's mutex is held, and the list ends with the
  mutexes it started with released.
\<close>

fun locked_signals :: "SceUID list \<Rightarrow> event list \<Rightarrow> bool" where
  "locked_signals held [] = (held = [])"
| "locked_signals held (mutex_lock m # es) = (m \<notin> set held \<and> locked_signals (m # held) es)"
| "locked_signals held (mutex_unlock m # es) =
     (m \<in> set held \<and> locked_signals (removeAll m held) es)"
| "locked_signals held (notify_one t # es) = (t \<in> set held \<and> locked_signals held es)"
| "locked_signals held (_ # es) = locked_signals held es"

subsection \<open>Sequences of operations on the kernel\<close>

text \<open>
  The operations of this file that touch the kernel's tables, as values, and what a
  sequence of them does to the kernel and the guest memory. A trampoline is given the
  wake-ups its run loop will see.
\<close>

datatype kernel_op =
    op_create_thread Address string "32 word" "32 word" "SceKernelThreadOptParam option"
  | op_start_thread bool SceUID SceSize Address
  | op_thread_function ThreadParams "ThreadToDo list"
  | op_copy_stack SceUID SceUID Address

fun apply_op :: "Env \<Rightarrow> kernel_op \<Rightarrow> KernelState \<times> MemState \<Rightarrow> KernelState \<times> MemState" where
  "apply_op env (op_create_thread entry nm init_priority stack_sz option) (kern, mem) =
     snd (create_thread env entry kern mem nm init_priority stack_sz option)"
| "apply_op env (op_start_thread null_runs_deleter tid len ap) (kern, mem) =
     (fst (snd (start_thread env null_runs_deleter kern tid len ap)), mem)"
| "apply_op env (op_thread_function params wakes) (kern, mem) =
     (fst (snd (thread_function env params kern wakes)), mem)"
| "apply_op env (op_copy_stack tid thread_id ap) (kern, mem) =
     snd (copy_stack tid thread_id ap kern mem)"

definition run_ops ::
  "Env \<Rightarrow> kernel_op list \<Rightarrow> KernelState \<times> MemState \<Rightarrow> KernelState \<times> MemState" where
  "run_ops env ops s = fold (apply_op env) ops s"

subsection \<open>A small environment for the examples\<close>

text \<open>
  A bump allocator above \<open>0x81000000\<close>, a backend whose registers start at zero, whose
  snapshot is the whole register state and whose \<^verbatim>\<open>run\<close> and \<^verbatim>\<open>step\<close> succeed without
  touching anything, and a host that always spawns. The two priority constants are
  example values.
\<close>

definition example_alloc :: "MemState \<Rightarrow> 32 word \<Rightarrow> string \<Rightarrow> Address \<times> MemState" where
  "example_alloc mem sz label =
     (let a = 0x81000000 + sum_list (map (\<lambda>(_, s, _). s) (allocations mem))
      in (a, mem\<lparr>allocations := allocations mem @ [(a, sz, label)]\<rparr>))"

definition example_free :: "MemState \<Rightarrow> Address \<Rightarrow> MemState" where
  "example_free mem a = mem\<lparr>allocations := filter (\<lambda>(b, _, _). b \<noteq> a) (allocations mem)\<rparr>"

definition example_cpu :: "Address \<Rightarrow> CPUState" where
  "example_cpu stack_top =
     \<lparr>regs = (\<lambda>_. 0), sp = stack_top, tpidruro = 0, log_code = False, log_mem = False\<rparr>"

definition example_call :: "int \<Rightarrow> CPUState \<Rightarrow> Address \<Rightarrow> BackendResult" where
  "example_call r c entry = \<lparr>res = r, cpu_after = c, to_do_stored = None\<rparr>"

definition example_env :: Env where
  "example_env =
     \<lparr>SCE_KERNEL_DEFAULT_PRIORITY = 0x10000100,
      SCE_KERNEL_DEFAULT_PRIORITY_USER_INTERNAL = 160,
      USE_GDBSTUB = False,
      alloc = example_alloc,
      free = example_free,
      init_cpu = (\<lambda>tid entry stack_top mem. Some (example_cpu stack_top)),
      save_context = (\<lambda>c. c),
      run = example_call 0,
      step = example_call 0,
      hit_breakpoint = (\<lambda>c. False),
      SDL_CreateThread = (\<lambda>nm params. Some 1)\<rparr>"

definition example_mem :: MemState where
  "example_mem = \<lparr>memory = (\<lambda>_. 0), allocations = []\<rparr>"

definition example_kernel :: KernelState where
  "example_kernel =
     \<lparr>next_uid = 1, threads = Map.empty, waiting_threads = Map.empty,
      running_threads = Map.empty, wait_for_debugger = False, watch_code = False,
      watch_memory = False\<rparr>"

definition example_thread :: "ThreadToDo \<Rightarrow> SceUID list \<Rightarrow> ThreadState" where
  "example_thread t ws =
     \<lparr>name = ''main'', entry_point = 0x81000000, priority = 160, stack_size = 0x1000,
      stack = 0x82000000, cpu = example_cpu 0x82001000, cpu_context = example_cpu 0x82001000,
      to_do = t, thread_waiting_threads = ws\<rparr>"

text \<open>
  Two threads for the stack relocation: thread 1 has used 16 bytes of its stack at
  \<open>0x82000000\<close>, thread 2 has an empty stack at \<open>0x83000000\<close>; every byte of the memory
  holds the low bits of its own address.
\<close>

definition example_kernel2 :: KernelState where
  "example_kernel2 =
     example_kernel\<lparr>threads :=
       [1 \<mapsto> (example_thread ToDo_run [])\<lparr>cpu := example_cpu 0x82000FF0\<rparr>,
        2 \<mapsto> (example_thread ToDo_run [])\<lparr>stack := 0x83000000, cpu := example_cpu 0x83001000\<rparr>]\<rparr>"

definition example_mem2 :: MemState where
  "example_mem2 = \<lparr>memory = (\<lambda>a. of_nat a), allocations = []\<rparr>"

text \<open>
  A kernel whose only record has exited and whose debugger flag is set, the parameters
  of a trampoline for that record, and backends whose \<^verbatim>\<open>run\<close> or \<^verbatim>\<open>step\<close> fails.
\<close>

definition example_kernel3 :: KernelState where
  "example_kernel3 =
     example_kernel\<lparr>threads := [1 \<mapsto> example_thread ToDo_exit []], wait_for_debugger := True\<rparr>"

definition example_params :: ThreadParams where
  "example_params = \<lparr>thid = 1, arglen = 0, argp = 0\<rparr>"

definition failing_run_env :: Env where
  "failing_run_env = example_env\<lparr>run := example_call (- 1)\<rparr>"

definition failing_step_env :: Env where
  "failing_step_env = example_env\<lparr>step := example_call (- 1)\<rparr>"

section \<open>Properties\<close>

subsection \<open>create_thread\<close>

lemma emplace_fresh: "m k = None \<Longrightarrow> emplace k v m k = Some v"
  by (simp add: emplace_def)

lemma example_create_ok:
  "fst (create_thread example_env 0x81000000 example_kernel example_mem ''main'' 0x10000100 0x1000 None) = Inr 1"
  by (simp add: create_thread_def get_next_uid_def Let_def example_env_def example_kernel_def
        split: prod.splits)

text \<open>
  What a successful call has done: the two allocations, the backend that \<open>init_cpu\<close>
  returned, the record it stored, and the backend state \<open>c\<close> of which it took the snapshot.
\<close>

lemma create_thread_success:
  assumes ok: "fst (create_thread env entry kern mem nm init_priority stack_sz option) = Inr tid"
  obtains stk mem1 cpu0 tls mem3 thread c where
    "tid = next_uid kern"
    "alloc env mem stack_sz (stack_alloc_name nm tid) = (stk, mem1)"
    "init_cpu env tid entry (stk + stack_sz) (memset mem1 stk 0xcc (size_t_of_int stack_sz)) = Some cpu0"
    "alloc env (memset mem1 stk 0xcc (size_t_of_int stack_sz)) 0x800 (tls_alloc_name nm tid) = (tls, mem3)"
    "create_thread env entry kern mem nm init_priority stack_sz option =
      (Inr tid,
       kern\<lparr>next_uid := next_uid kern + 1,
            threads := emplace tid thread (threads kern),
            waiting_threads := emplace tid \<lparr>waiting_name = nm\<rparr> (waiting_threads kern)\<rparr>,
       mem3)"
    "priority thread =
       (if init_priority AND (SCE_KERNEL_DEFAULT_PRIORITY env AND 0xF0000000) \<noteq> 0
        then init_priority - SCE_KERNEL_DEFAULT_PRIORITY env
               + SCE_KERNEL_DEFAULT_PRIORITY_USER_INTERNAL env
        else init_priority)"
    "cpu thread = write_tpidruro c (tls + 0x800)"
    "cpu_context thread = save_context env c"
    "tpidruro c = tpidruro cpu0"
proof -
  obtain stk mem1 where a1: "alloc env mem stack_sz (stack_alloc_name nm (next_uid kern)) = (stk, mem1)"
    by fastforce
  obtain tls mem3 where a2:
    "alloc env (memset mem1 stk 0xcc (size_t_of_int stack_sz)) 0x800 (tls_alloc_name nm (next_uid kern)) = (tls, mem3)"
    by fastforce
  from ok a1 obtain cpu0 where ic:
    "init_cpu env (next_uid kern) entry (stk + stack_sz) (memset mem1 stk 0xcc (size_t_of_int stack_sz)) = Some cpu0"
    by (auto simp: create_thread_def get_next_uid_def Let_def split: option.splits)
  from ok a1 a2 ic have t: "tid = next_uid kern"
    by (simp add: create_thread_def get_next_uid_def Let_def)
  define cpu2 where "cpu2 = (if watch_memory kern
                              then set_log_mem (if watch_code kern then set_log_code cpu0 True else cpu0) True
                              else (if watch_code kern then set_log_code cpu0 True else cpu0))"
  define c where "c = (case option of None \<Rightarrow> cpu2
                       | Some opt \<Rightarrow> write_reg (write_reg cpu2 0 (opt_attr opt)) 1 (opt_size opt))"
  define thread where "thread =
     \<lparr>name = nm, entry_point = entry,
      priority = (if init_priority AND (SCE_KERNEL_DEFAULT_PRIORITY env AND 0xF0000000) \<noteq> 0
                  then init_priority - SCE_KERNEL_DEFAULT_PRIORITY env
                         + SCE_KERNEL_DEFAULT_PRIORITY_USER_INTERNAL env
                  else init_priority),
      stack_size = stack_sz, stack = stk, cpu = write_tpidruro c (tls + 0x800),
      cpu_context = save_context env c, to_do = ThreadState_default_to_do, thread_waiting_threads = []\<rparr>"
  have eq: "create_thread env entry kern mem nm init_priority stack_sz option =
      (Inr tid,
       kern\<lparr>next_uid := next_uid kern + 1,
            threads := emplace tid thread (threads kern),
            waiting_threads := emplace tid \<lparr>waiting_name = nm\<rparr> (waiting_threads kern)\<rparr>,
       mem3)"
    by (simp add: t a1 a2 ic create_thread_def get_next_uid_def Let_def thread_def c_def cpu2_def
             split: option.splits)
  have tp: "tpidruro c = tpidruro cpu0"
    by (simp add: c_def cpu2_def write_reg_def set_log_mem_def set_log_code_def
             split: option.splits)
  show thesis
    by (rule that [OF t a1 [folded t] ic [folded t] a2 [folded t] eq _ _ _ tp])
       (simp_all add: thread_def)
qed

text \<open>
  C1: the record that \<open>create_thread\<close> stores under the new id has the requested priority
  minus \<open>SCE_KERNEL_DEFAULT_PRIORITY\<close> plus \<open>SCE_KERNEL_DEFAULT_PRIORITY_USER_INTERNAL\<close> when
  the request lies in the reserved range of the default priority (it shares a bit with
  the top four bits of \<open>SCE_KERNEL_DEFAULT_PRIORITY\<close>), and the requested priority itself
  otherwise. The call must succeed, and the id source must hand out an id that the
  table does not hold yet.
\<close>

theorem create_thread_priority:
  assumes ok: "fst (create_thread env entry kern mem nm init_priority stack_sz option) = Inr tid"
      and fresh: "threads kern (next_uid kern) = None"
  shows "\<exists>thread.
           threads (fst (snd (create_thread env entry kern mem nm init_priority stack_sz option))) tid
             = Some thread \<and>
           priority thread =
             (if init_priority AND (SCE_KERNEL_DEFAULT_PRIORITY env AND 0xF0000000) \<noteq> 0
              then init_priority - SCE_KERNEL_DEFAULT_PRIORITY env
                     + SCE_KERNEL_DEFAULT_PRIORITY_USER_INTERNAL env
              else init_priority)"
proof -
  from ok obtain mem3 thread where
      t: "tid = next_uid kern"
    and eq: "create_thread env entry kern mem nm init_priority stack_sz option =
      (Inr tid, kern\<lparr>next_uid := next_uid kern + 1,
            threads := emplace tid thread (threads kern),
            waiting_threads := emplace tid \<lparr>waiting_name = nm\<rparr> (waiting_threads kern)\<rparr>, mem3)"
    and pr: "priority thread =
             (if init_priority AND (SCE_KERNEL_DEFAULT_PRIORITY env AND 0xF0000000) \<noteq> 0
              then init_priority - SCE_KERNEL_DEFAULT_PRIORITY env
                     + SCE_KERNEL_DEFAULT_PRIORITY_USER_INTERNAL env
              else init_priority)"
    by (rule create_thread_success)
  from fresh t have "emplace tid thread (threads kern) tid = Some thread"
    by (simp add: emplace_fresh)
  with pr show ?thesis
    unfolding eq by simp
qed

text \<open>The remapping at work: a request of \<open>0x10000100\<close> is stored as \<open>160\<close>.\<close>

theorem create_thread_priority_witness:
  "fst (create_thread example_env 0x81000000 example_kernel example_mem ''main'' 0x10000100 0x1000 None) = Inr 1
   \<and> threads example_kernel (next_uid example_kernel) = None
   \<and> (\<exists>thread.
         threads (fst (snd (create_thread example_env 0x81000000 example_kernel example_mem
                              ''main'' 0x10000100 0x1000 None))) 1 = Some thread
         \<and> priority thread = 160)"
proof -
  have fresh: "threads example_kernel (next_uid example_kernel) = None"
    by (simp add: example_kernel_def)
  from create_thread_priority [OF example_create_ok fresh]
  show ?thesis
    using example_create_ok fresh by (simp add: example_env_def)
qed

text \<open>
  C2, as the code has it: the snapshot is taken before the TLS block is allocated and
  the thread pointer programmed. The stored backend has its thread pointer at the end
  of the 2048-byte block; the stored snapshot is that of the same backend with the
  thread pointer still as \<open>init_cpu\<close> left it.
\<close>

theorem create_thread_snapshot_before_tls:
  assumes ok: "fst (create_thread env entry kern mem nm init_priority stack_sz option) = Inr tid"
      and fresh: "threads kern (next_uid kern) = None"
  shows "\<exists>thread cpu0 stack_top mem2 tls mem3.
           threads (fst (snd (create_thread env entry kern mem nm init_priority stack_sz option))) tid
             = Some thread \<and>
           init_cpu env tid entry stack_top mem2 = Some cpu0 \<and>
           alloc env mem2 0x800 (tls_alloc_name nm tid) = (tls, mem3) \<and>
           tpidruro (cpu thread) = tls + 0x800 \<and>
           cpu_context thread = save_context env ((cpu thread)\<lparr>tpidruro := tpidruro cpu0\<rparr>)"
proof -
  from ok obtain stk mem1 cpu0 tls mem3 thread c where
      t: "tid = next_uid kern"
    and ic: "init_cpu env tid entry (stk + stack_sz) (memset mem1 stk 0xcc (size_t_of_int stack_sz)) = Some cpu0"
    and a2: "alloc env (memset mem1 stk 0xcc (size_t_of_int stack_sz)) 0x800 (tls_alloc_name nm tid) = (tls, mem3)"
    and eq: "create_thread env entry kern mem nm init_priority stack_sz option =
      (Inr tid, kern\<lparr>next_uid := next_uid kern + 1,
            threads := emplace tid thread (threads kern),
            waiting_threads := emplace tid \<lparr>waiting_name = nm\<rparr> (waiting_threads kern)\<rparr>, mem3)"
    and cp: "cpu thread = write_tpidruro c (tls + 0x800)"
    and cx: "cpu_context thread = save_context env c"
    and tp: "tpidruro c = tpidruro cpu0"
    by (rule create_thread_success)
  from fresh t have stored:
    "threads (fst (snd (create_thread env entry kern mem nm init_priority stack_sz option))) tid
       = Some thread"
    unfolding eq by (simp add: emplace_fresh)
  have undo: "(cpu thread)\<lparr>tpidruro := tpidruro cpu0\<rparr> = c"
    using tp by (simp add: cp write_tpidruro_def)
  have "tpidruro (cpu thread) = tls + 0x800"
    by (simp add: cp write_tpidruro_def)
  with stored ic a2 cx undo show ?thesis
    by metis
qed

text \<open>The example thread: its snapshot is that of the backend before the thread pointer was set.\<close>

theorem create_thread_snapshot_before_tls_witness:
  "fst (create_thread example_env 0x81000000 example_kernel example_mem ''main'' 0x10000100 0x1000 None) = Inr 1
   \<and> threads example_kernel (next_uid example_kernel) = None
   \<and> (\<exists>thread cpu0 stack_top mem2 tls mem3.
         threads (fst (snd (create_thread example_env 0x81000000 example_kernel example_mem
                              ''main'' 0x10000100 0x1000 None))) 1 = Some thread \<and>
         init_cpu example_env 1 0x81000000 stack_top mem2 = Some cpu0 \<and>
         alloc example_env mem2 0x800 (tls_alloc_name ''main'' 1) = (tls, mem3) \<and>
         tpidruro (cpu thread) = tls + 0x800 \<and>
         cpu_context thread = save_context example_env ((cpu thread)\<lparr>tpidruro := tpidruro cpu0\<rparr>))"
proof -
  have fresh: "threads example_kernel (next_uid example_kernel) = None"
    by (simp add: example_kernel_def)
  from create_thread_snapshot_before_tls [OF example_create_ok fresh]
  show ?thesis
    using example_create_ok fresh by simp
qed

text \<open>
  C2 as stated fails: with a snapshot that copies the register state, the stored
  snapshot holds the thread pointer \<open>0\<close> of the fresh backend, not the programmed
  \<open>0x81001800\<close>.
\<close>

theorem create_thread_snapshot_counterexample:
  "threads (fst (snd (create_thread example_env 0x81000000 example_kernel example_mem
                        ''main'' 160 0x1000 None))) 1 \<noteq> None
   \<and> tpidruro (cpu (the (threads (fst (snd (create_thread example_env 0x81000000 example_kernel
                        example_mem ''main'' 160 0x1000 None))) 1))) = 0x81001800
   \<and> tpidruro (cpu_context (the (threads (fst (snd (create_thread example_env 0x81000000
                        example_kernel example_mem ''main'' 160 0x1000 None))) 1))) = 0
   \<and> cpu_context (the (threads (fst (snd (create_thread example_env 0x81000000
                        example_kernel example_mem ''main'' 160 0x1000 None))) 1))
       \<noteq> save_context example_env (cpu (the (threads (fst (snd (create_thread example_env
                        0x81000000 example_kernel example_mem ''main'' 160 0x1000 None))) 1)))"
  by (simp add: create_thread_def get_next_uid_def Let_def example_env_def example_kernel_def
        example_alloc_def example_mem_def memset_def emplace_def example_cpu_def
        write_tpidruro_def)

subsection \<open>start_thread\<close>

text \<open>
  C8: for an id that the pending set does not hold, \<open>start_thread\<close> returns
  \<open>SCE_KERNEL_ERROR_UNKNOWN_THREAD_ID\<close>, leaves the whole kernel (thread table, pending
  set, running set) as it was, spawns no host thread and touches no mutex.
\<close>

theorem start_thread_unknown:
  assumes "waiting_threads kern tid = None"
  shows "start_thread env null_runs_deleter kern tid len ap =
           (Returned SCE_KERNEL_ERROR_UNKNOWN_THREAD_ID, kern, None, [])"
  using assms by (simp add: start_thread_def)

theorem start_thread_unknown_witness:
  "waiting_threads example_kernel 7 = None
   \<and> start_thread example_env True example_kernel 7 0 0 =
       (Returned SCE_KERNEL_ERROR_UNKNOWN_THREAD_ID, example_kernel, None, [])"
proof -
  have h: "waiting_threads example_kernel 7 = None"
    by (simp add: example_kernel_def)
  from start_thread_unknown [OF h] show ?thesis
    using h by simp
qed

subsection \<open>copy_stack\<close>

text \<open>What the call does when both ids are in the table.\<close>

lemma copy_stack_found:
  assumes new: "threads kern tid = Some new_thread"
      and old: "threads kern thread_id = Some old_thread"
  shows "copy_stack tid thread_id ap kern mem =
          (Returned (if stack old_thread < ap \<and> ap < stack old_thread + stack_size old_thread
                     then stack new_thread + stack_size new_thread
                            - (stack old_thread + stack_size old_thread - ap)
                     else ap),
           store_thread kern tid
             (new_thread\<lparr>cpu := write_sp (cpu new_thread)
                (stack new_thread + stack_size new_thread
                   - (stack old_thread + stack_size old_thread - read_sp (cpu old_thread)))\<rparr>),
           memcpy mem
             (stack new_thread + stack_size new_thread
                - (stack old_thread + stack_size old_thread - read_sp (cpu old_thread)))
             (read_sp (cpu old_thread))
             (unat (stack old_thread + stack_size old_thread - read_sp (cpu old_thread))))"
  by (simp add: copy_stack_def new old Let_def)

lemma example_kernel2_threads:
  "threads example_kernel2 2 =
     Some ((example_thread ToDo_run [])\<lparr>stack := 0x83000000, cpu := example_cpu 0x83001000\<rparr>)"
  "threads example_kernel2 1 = Some ((example_thread ToDo_run [])\<lparr>cpu := example_cpu 0x82000FF0\<rparr>)"
  by (simp_all add: example_kernel2_def)

text \<open>
  C9: an argument pointer that is not strictly between the base and the top of the
  source stack (it is the base or below, or the top or above) is returned unchanged.
\<close>

theorem copy_stack_boundary:
  assumes new: "threads kern tid = Some new_thread"
      and old: "threads kern thread_id = Some old_thread"
      and out: "ap \<le> stack old_thread \<or> stack old_thread + stack_size old_thread \<le> ap"
  shows "fst (copy_stack tid thread_id ap kern mem) = Returned ap"
  using out by (auto simp: copy_stack_found [OF new old])

text \<open>The base and the top of thread 1's stack stay; the byte above the base moves.\<close>

theorem copy_stack_boundary_witness:
  "threads example_kernel2 2 =
     Some ((example_thread ToDo_run [])\<lparr>stack := 0x83000000, cpu := example_cpu 0x83001000\<rparr>)
   \<and> threads example_kernel2 1 = Some ((example_thread ToDo_run [])\<lparr>cpu := example_cpu 0x82000FF0\<rparr>)
   \<and> fst (copy_stack 2 1 0x82000000 example_kernel2 example_mem2) = Returned 0x82000000
   \<and> fst (copy_stack 2 1 0x82001000 example_kernel2 example_mem2) = Returned 0x82001000
   \<and> fst (copy_stack 2 1 0x82000001 example_kernel2 example_mem2) = Returned 0x83000001"
proof -
  have b: "(0x82000000 :: 32 word) \<le> stack ((example_thread ToDo_run [])\<lparr>cpu := example_cpu 0x82000FF0\<rparr>)
           \<or> stack ((example_thread ToDo_run [])\<lparr>cpu := example_cpu 0x82000FF0\<rparr>)
              + stack_size ((example_thread ToDo_run [])\<lparr>cpu := example_cpu 0x82000FF0\<rparr>) \<le> 0x82000000"
    by (simp add: example_thread_def)
  have t: "(0x82001000 :: 32 word) \<le> stack ((example_thread ToDo_run [])\<lparr>cpu := example_cpu 0x82000FF0\<rparr>)
           \<or> stack ((example_thread ToDo_run [])\<lparr>cpu := example_cpu 0x82000FF0\<rparr>)
              + stack_size ((example_thread ToDo_run [])\<lparr>cpu := example_cpu 0x82000FF0\<rparr>) \<le> 0x82001000"
    by (simp add: example_thread_def)
  have i: "fst (copy_stack 2 1 0x82000001 example_kernel2 example_mem2) = Returned 0x83000001"
    by (simp add: copy_stack_found [OF example_kernel2_threads] example_thread_def)
  from copy_stack_boundary [OF example_kernel2_threads b, of example_mem2]
       copy_stack_boundary [OF example_kernel2_threads t, of example_mem2] i
  show ?thesis
    by (simp add: example_kernel2_threads)
qed

text \<open>
  C4, as the code has it. With \<open>k\<close> the used part of the source stack (its top minus its
  stack pointer): the call returns; the \<open>k\<close> bytes below the destination's top are the
  \<open>k\<close> bytes that were below the source's top before the call (and still are after it
  when the two ranges are apart); the destination's stack pointer is its top minus \<open>k\<close>;
  an argument pointer \<open>d\<close> below the source's top that lies strictly between the source's
  base and top comes back \<open>d\<close> below the destination's top; and one below the base or at
  or above the top comes back unchanged.
\<close>

theorem copy_stack_relocates:
  assumes new: "threads kern tid = Some new_thread"
      and old: "threads kern thread_id = Some old_thread"
      and ot: "old_top = stack old_thread + stack_size old_thread"
      and nt: "new_top = stack new_thread + stack_size new_thread"
      and sp: "old_sp = read_sp (cpu old_thread)"
      and k: "k = old_top - old_sp"
  shows "(\<exists>r. fst (copy_stack tid thread_id ap kern mem) = Returned r)
       \<and> (\<forall>i < unat k. memory (snd (snd (copy_stack tid thread_id ap kern mem)))
                          (unat (new_top - k) + i)
                      = memory mem (unat old_sp + i))
       \<and> (unat (new_top - k) + unat k \<le> unat old_sp \<or> unat old_sp + unat k \<le> unat (new_top - k)
            \<longrightarrow> (\<forall>i < unat k. memory (snd (snd (copy_stack tid thread_id ap kern mem)))
                                  (unat (new_top - k) + i)
                              = memory (snd (snd (copy_stack tid thread_id ap kern mem)))
                                  (unat old_sp + i)))
       \<and> map_option (\<lambda>t. read_sp (cpu t))
            (threads (fst (snd (copy_stack tid thread_id ap kern mem))) tid) = Some (new_top - k)
       \<and> (stack old_thread < old_top - d \<and> old_top - d < old_top
            \<longrightarrow> fst (copy_stack tid thread_id (old_top - d) kern mem) = Returned (new_top - d))
       \<and> (\<not> (stack old_thread \<le> ap \<and> ap < old_top)
            \<longrightarrow> fst (copy_stack tid thread_id ap kern mem) = Returned ap)"
  unfolding copy_stack_found [OF new old] ot nt sp k
  by (auto simp: memcpy_def store_thread_def write_sp_def read_sp_def)

theorem copy_stack_relocates_witness:
  "threads example_kernel2 2 =
     Some ((example_thread ToDo_run [])\<lparr>stack := 0x83000000, cpu := example_cpu 0x83001000\<rparr>)
   \<and> threads example_kernel2 1 = Some ((example_thread ToDo_run [])\<lparr>cpu := example_cpu 0x82000FF0\<rparr>)
   \<and> memory (snd (snd (copy_stack 2 1 0x82000FF6 example_kernel2 example_mem2))) 0x83000FF3 = 0xF3
   \<and> memory example_mem2 0x82000FF3 = 0xF3
   \<and> memory (snd (snd (copy_stack 2 1 0x82000FF6 example_kernel2 example_mem2))) 0x82000FF3 = 0xF3
   \<and> map_option (\<lambda>t. read_sp (cpu t))
        (threads (fst (snd (copy_stack 2 1 0x82000FF6 example_kernel2 example_mem2))) 2)
       = Some 0x83000FF0
   \<and> fst (copy_stack 2 1 (0x82001000 - 10) example_kernel2 example_mem2) = Returned (0x83001000 - 10)
   \<and> fst (copy_stack 2 1 0x81000000 example_kernel2 example_mem2) = Returned 0x81000000"
proof -
  let ?old = "(example_thread ToDo_run [])\<lparr>cpu := example_cpu 0x82000FF0\<rparr>"
  let ?new = "(example_thread ToDo_run [])\<lparr>stack := 0x83000000, cpu := example_cpu 0x83001000\<rparr>"
  have ot: "(0x82001000 :: 32 word) = stack ?old + stack_size ?old"
    by (simp add: example_thread_def)
  have nt: "(0x83001000 :: 32 word) = stack ?new + stack_size ?new"
    by (simp add: example_thread_def)
  have sp: "(0x82000FF0 :: 32 word) = read_sp (cpu ?old)"
    by (simp add: read_sp_def example_cpu_def)
  have k: "(0x10 :: 32 word) = 0x82001000 - 0x82000FF0"
    by simp
  note r = copy_stack_relocates [OF example_kernel2_threads ot nt sp k, of _ example_mem2 10]
  have m0: "memory example_mem2 0x82000FF3 = 0xF3"
    by (simp add: example_mem2_def)
  let ?M = "snd (snd (copy_stack 2 1 0x82000FF6 example_kernel2 example_mem2))"
  have apart: "unat (0x83001000 - 0x10 :: 32 word) + unat (0x10 :: 32 word) \<le> unat (0x82000FF0 :: 32 word)
               \<or> unat (0x82000FF0 :: 32 word) + unat (0x10 :: 32 word) \<le> unat (0x83001000 - 0x10 :: 32 word)"
    by simp
  from r [of "0x82000FF6"] have c1:
    "\<forall>i < unat (0x10 :: 32 word). memory ?M (unat (0x83001000 - 0x10 :: 32 word) + i)
        = memory example_mem2 (unat (0x82000FF0 :: 32 word) + i)"
    by blast
  from r [of "0x82000FF6"] apart have c2:
    "\<forall>i < unat (0x10 :: 32 word). memory ?M (unat (0x83001000 - 0x10 :: 32 word) + i)
        = memory ?M (unat (0x82000FF0 :: 32 word) + i)"
    by blast
  from c1 [rule_format, of 3] have m1: "memory ?M 0x83000FF3 = memory example_mem2 0x82000FF3"
    by simp
  from c2 [rule_format, of 3] have m2: "memory ?M 0x83000FF3 = memory ?M 0x82000FF3"
    by simp
  from r [of "0x82000FF6"] have s:
    "map_option (\<lambda>t. read_sp (cpu t))
        (threads (fst (snd (copy_stack 2 1 0x82000FF6 example_kernel2 example_mem2))) 2)
       = Some 0x83000FF0"
    by simp
  from r [of "0x82001000 - 10"] have a:
    "fst (copy_stack 2 1 (0x82001000 - 10) example_kernel2 example_mem2) = Returned (0x83001000 - 10)"
    by (simp add: example_thread_def)
  from r [of "0x81000000"] have o:
    "fst (copy_stack 2 1 0x81000000 example_kernel2 example_mem2) = Returned 0x81000000"
    by (simp add: example_thread_def)
  from m0 m1 m2 s a o show ?thesis
    by (simp add: example_kernel2_threads)
qed

text \<open>
  C4 as stated fails at the base of the source stack: the pointer \<open>0x1000\<close> below the
  top of thread 1's stack is the stack's first byte, and it comes back unchanged, not
  \<open>0x1000\<close> below the top of thread 2's stack.
\<close>

theorem copy_stack_base_counterexample:
  "threads example_kernel2 1 \<noteq> None
   \<and> stack (the (threads example_kernel2 1)) = 0x82001000 - 0x1000
   \<and> stack_size (the (threads example_kernel2 1)) = 0x1000
   \<and> fst (copy_stack 2 1 (0x82001000 - 0x1000) example_kernel2 example_mem2)
       = Returned (0x82001000 - 0x1000)
   \<and> fst (copy_stack 2 1 (0x82001000 - 0x1000) example_kernel2 example_mem2)
       \<noteq> Returned (0x83001000 - 0x1000)"
  by (simp add: copy_stack_found [OF example_kernel2_threads] example_kernel2_threads
        example_thread_def)

subsection \<open>run_thread\<close>

text \<open>A pass that made a failed backend call returns failure with the record at exit,
  and a pass that goes round the loop again made no failed call.\<close>

lemma run_or_step_failed:
  assumes "run_or_step env thread = (b, thread', ev)" and "is_failed_call ev"
  shows "b = Some False \<and> to_do thread' = ToDo_exit"
  using assms
  by (auto simp: run_or_step_def Let_def split: if_splits)

lemma run_or_step_continues:
  assumes "run_or_step env thread = (None, thread', ev)"
  shows "\<not> is_failed_call ev"
  using assms
  by (auto simp: run_or_step_def Let_def split: if_splits)

text \<open>The loop, one case of the switch at a time.\<close>

lemma run_thread_exit:
  "to_do thread = ToDo_exit \<Longrightarrow> run_thread env wakes thread = (Returned True, thread, [])"
  unfolding run_thread_def by (subst run_thread_loop.simps) simp

lemma run_thread_wait_nil:
  "to_do thread = ToDo_wait \<Longrightarrow> run_thread env [] thread = (Blocked, thread, [])"
  unfolding run_thread_def by (subst run_thread_loop.simps) simp

lemma run_thread_wait_cons:
  "to_do thread = ToDo_wait \<Longrightarrow>
   run_thread env (w # ws) thread = run_thread env ws (thread\<lparr>to_do := w\<rparr>)"
  unfolding run_thread_def by (subst run_thread_loop.simps) simp

lemma run_thread_returns:
  "to_do thread = ToDo_run \<or> to_do thread = ToDo_step \<Longrightarrow>
   run_or_step env thread = (Some b, thread', ev) \<Longrightarrow>
   run_thread env wakes thread = (Returned b, thread', [ev])"
  unfolding run_thread_def by (subst run_thread_loop.simps) auto

text \<open>A thread that a service call or a controller re-arms to step while \<^verbatim>\<open>run\<close>
  executes takes the \<^verbatim>\<open>break\<close>; the next pass unlocks the lock a second time.\<close>

lemma run_thread_rearmed:
  assumes "to_do thread = ToDo_run"
      and "0 \<le> res (run env (cpu thread) (entry_point thread))"
      and "to_do_stored (run env (cpu thread) (entry_point thread)) = Some ToDo_step"
      and "\<not> (USE_GDBSTUB env
              \<and> hit_breakpoint env (cpu_after (run env (cpu thread) (entry_point thread))))"
  shows "run_thread env wakes thread =
           (Aborted lock_not_owned,
            thread\<lparr>cpu := cpu_after (run env (cpu thread) (entry_point thread)),
                   to_do := ToDo_step\<rparr>,
            [backend_run (res (run env (cpu thread) (entry_point thread)))])"
proof -
  let ?t = "thread\<lparr>cpu := cpu_after (run env (cpu thread) (entry_point thread)),
                   to_do := ToDo_step\<rparr>"
  have body: "run_or_step env thread =
                (None, ?t, backend_run (res (run env (cpu thread) (entry_point thread))))"
    using assms by (auto simp: run_or_step_def Let_def)
  have again: "run_thread_loop env wakes False ?t = (Aborted lock_not_owned, ?t, [])"
    by (subst run_thread_loop.simps) simp
  show ?thesis
    unfolding run_thread_def
    by (subst run_thread_loop.simps) (simp add: assms(1) body again)
qed

lemma run_thread_run_fails:
  assumes "to_do thread = ToDo_run"
      and "res (run env (cpu thread) (entry_point thread)) < 0"
  shows "run_thread env wakes thread =
           (Returned False,
            thread\<lparr>cpu := cpu_after (run env (cpu thread) (entry_point thread)),
                   to_do := ToDo_exit\<rparr>,
            [backend_run (res (run env (cpu thread) (entry_point thread)))])"
  using assms
  by (intro run_thread_returns) (auto simp: run_or_step_def Let_def)

lemma run_thread_step_fails:
  assumes "to_do thread = ToDo_step"
      and "res (step env (cpu thread) (entry_point thread)) < 0"
  shows "run_thread env wakes thread =
           (Returned False,
            thread\<lparr>cpu := cpu_after (step env (cpu thread) (entry_point thread)),
                   to_do := ToDo_exit\<rparr>,
            [backend_step (res (step env (cpu thread) (entry_point thread)))])"
  using assms
  by (intro run_thread_returns) (auto simp: run_or_step_def Let_def)

lemma run_thread_step_returns:
  assumes "to_do thread = ToDo_step"
      and "0 \<le> res (step env (cpu thread) (entry_point thread))"
  shows "run_thread env wakes thread =
           (Returned True,
            thread\<lparr>cpu := cpu_after (step env (cpu thread) (entry_point thread)),
                   to_do := ToDo_wait\<rparr>,
            [backend_step (res (step env (cpu thread) (entry_point thread)))])"
  using assms
  by (intro run_thread_returns) (auto simp: run_or_step_def Let_def)

text \<open>Whichever pass of the loop makes a failed backend call, the loop ends there.\<close>

lemma run_thread_loop_failed_call:
  assumes "list_ex is_failed_call (snd (snd (run_thread_loop env wakes owned thread)))"
  shows "fst (run_thread_loop env wakes owned thread) = Returned False
         \<and> to_do (fst (snd (run_thread_loop env wakes owned thread))) = ToDo_exit"
  using assms
proof (induction env wakes owned thread rule: run_thread_loop.induct)
  case (1 env wakes owned thread)
  show ?case
  proof (cases "to_do thread = ToDo_exit")
    case True
    then have "run_thread_loop env wakes owned thread = (Returned True, thread, [])"
      by (subst run_thread_loop.simps) simp
    with "1.prems" show ?thesis
      by simp
  next
    case ne: False
    show ?thesis
    proof (cases owned)
      case False
      with ne have "run_thread_loop env wakes owned thread = (Aborted lock_not_owned, thread, [])"
        by (subst run_thread_loop.simps) simp
      with "1.prems" show ?thesis
        by simp
    next
      case own: True
      show ?thesis
      proof (cases "to_do thread = ToDo_run \<or> to_do thread = ToDo_step")
        case rs: True
        obtain b thread' ev where body: "run_or_step env thread = (b, thread', ev)"
          by (cases "run_or_step env thread") auto
        show ?thesis
        proof (cases b)
          case (Some r)
          with ne rs own body
          have eq: "run_thread_loop env wakes owned thread = (Returned r, thread', [ev])"
            by (subst run_thread_loop.simps) simp
          with "1.prems" have "is_failed_call ev" by simp
          from run_or_step_failed [OF body this] Some eq show ?thesis by simp
        next
          case None
          obtain out thread'' evs where
            rest: "run_thread_loop env wakes False thread' = (out, thread'', evs)"
            by (cases "run_thread_loop env wakes False thread'") auto
          from ne rs own body None rest
          have eq: "run_thread_loop env wakes owned thread = (out, thread'', ev # evs)"
            by (subst run_thread_loop.simps) simp
          from body None have "\<not> is_failed_call ev"
            by (simp add: run_or_step_continues)
          with "1.prems" eq rest
          have "list_ex is_failed_call (snd (snd (run_thread_loop env wakes False thread')))"
            by simp
          with "1.IH"(1) [OF ne rs _ body [symmetric] None refl] own
          have "fst (run_thread_loop env wakes False thread') = Returned False
                \<and> to_do (fst (snd (run_thread_loop env wakes False thread'))) = ToDo_exit"
            by simp
          with eq rest show ?thesis by simp
        qed
      next
        case w: False
        show ?thesis
        proof (cases wakes)
          case Nil
          with ne w own have "run_thread_loop env wakes owned thread = (Blocked, thread, [])"
            by (subst run_thread_loop.simps) simp
          with "1.prems" show ?thesis
            by simp
        next
          case (Cons a ws)
          with ne w own
          have eq: "run_thread_loop env wakes owned thread
                      = run_thread_loop env ws True (thread\<lparr>to_do := a\<rparr>)"
            by (subst run_thread_loop.simps) simp
          with "1.IH"(2) [OF ne w _ Cons] own "1.prems" show ?thesis
            by simp
        qed
      qed
    qed
  qed
qed

lemma run_thread_failed_call:
  assumes "list_ex is_failed_call (snd (snd (run_thread env wakes thread)))"
  shows "fst (run_thread env wakes thread) = Returned False
         \<and> to_do (fst (snd (run_thread env wakes thread))) = ToDo_exit"
  using assms unfolding run_thread_def by (rule run_thread_loop_failed_call)

lemma example_to_do [simp]: "to_do (example_thread t ws) = t"
  by (simp add: example_thread_def)

text \<open>
  C5: whenever a call of the backend's \<^verbatim>\<open>run\<close> or \<^verbatim>\<open>step\<close> made by the run loop returns
  a negative result, the loop returns failure and leaves the record's run-state at
  exit: for a failed call anywhere among the loop's backend calls, and spelled out for
  a loop entered in state run and for a loop entered in state step.
\<close>

theorem run_thread_backend_failure:
  "(list_ex is_failed_call (snd (snd (run_thread env wakes thread)))
      \<longrightarrow> fst (run_thread env wakes thread) = Returned False
          \<and> to_do (fst (snd (run_thread env wakes thread))) = ToDo_exit)
   \<and> (to_do thread = ToDo_run \<and> res (run env (cpu thread) (entry_point thread)) < 0
      \<longrightarrow> run_thread env wakes thread =
           (Returned False,
            thread\<lparr>cpu := cpu_after (run env (cpu thread) (entry_point thread)),
                   to_do := ToDo_exit\<rparr>,
            [backend_run (res (run env (cpu thread) (entry_point thread)))]))
   \<and> (to_do thread = ToDo_step \<and> res (step env (cpu thread) (entry_point thread)) < 0
      \<longrightarrow> run_thread env wakes thread =
           (Returned False,
            thread\<lparr>cpu := cpu_after (step env (cpu thread) (entry_point thread)),
                   to_do := ToDo_exit\<rparr>,
            [backend_step (res (step env (cpu thread) (entry_point thread)))]))"
  using run_thread_failed_call [of env wakes thread]
        run_thread_run_fails [of thread env wakes]
        run_thread_step_fails [of thread env wakes]
  by blast

text \<open>A waiting thread woken into run on a backend whose run fails, and a stepping
  thread on a backend whose step fails.\<close>

theorem run_thread_backend_failure_witness:
  "list_ex is_failed_call
     (snd (snd (run_thread failing_run_env [ToDo_wait, ToDo_run] (example_thread ToDo_wait []))))
   \<and> fst (run_thread failing_run_env [ToDo_wait, ToDo_run] (example_thread ToDo_wait []))
       = Returned False
   \<and> to_do (fst (snd (run_thread failing_run_env [ToDo_wait, ToDo_run]
                         (example_thread ToDo_wait [])))) = ToDo_exit
   \<and> res (step failing_step_env (cpu (example_thread ToDo_step []))
             (entry_point (example_thread ToDo_step []))) < 0
   \<and> fst (run_thread failing_step_env [] (example_thread ToDo_step [])) = Returned False
   \<and> to_do (fst (snd (run_thread failing_step_env [] (example_thread ToDo_step [])))) = ToDo_exit"
proof -
  let ?w = "(example_thread ToDo_wait [])\<lparr>to_do := ToDo_wait, to_do := ToDo_run\<rparr>"
  have neg: "res (run failing_run_env c e) < 0" for c e
    by (simp add: failing_run_env_def example_env_def example_call_def)
  have "run_thread failing_run_env [ToDo_wait, ToDo_run] (example_thread ToDo_wait [])
          = run_thread failing_run_env [] ?w"
    by (simp add: run_thread_wait_cons)
  also have "\<dots> = (Returned False,
                    ?w\<lparr>cpu := cpu_after (run failing_run_env (cpu ?w) (entry_point ?w)),
                        to_do := ToDo_exit\<rparr>,
                    [backend_run (res (run failing_run_env (cpu ?w) (entry_point ?w)))])"
    by (rule run_thread_run_fails) (simp_all add: neg del: ThreadState.update_convs)
  finally have ev: "list_ex is_failed_call
     (snd (snd (run_thread failing_run_env [ToDo_wait, ToDo_run] (example_thread ToDo_wait []))))"
    using neg by simp
  have sneg: "res (step failing_step_env (cpu (example_thread ToDo_step []))
             (entry_point (example_thread ToDo_step []))) < 0"
    by (simp add: failing_step_env_def example_env_def example_call_def)
  from run_thread_backend_failure
         [of failing_run_env "[ToDo_wait, ToDo_run]" "example_thread ToDo_wait []"]
       run_thread_backend_failure [of failing_step_env "[]" "example_thread ToDo_step []"]
       ev sneg
  show ?thesis
    by simp
qed

text \<open>
  C6, what the code does: a loop entered in state step calls \<^verbatim>\<open>step\<close> once, stores wait,
  and, the result being nonnegative, tests the run-state for step, which it has just
  overwritten, and so returns success at once instead of going round into the wait
  case. In the example a wake-up into run is on offer and is never taken: the only
  backend call is the one step.
\<close>

theorem run_thread_step_example:
  "fst (run_thread example_env [ToDo_run] (example_thread ToDo_step [])) = Returned True
   \<and> to_do (fst (snd (run_thread example_env [ToDo_run] (example_thread ToDo_step [])))) = ToDo_wait
   \<and> snd (snd (run_thread example_env [ToDo_run] (example_thread ToDo_step []))) = [backend_step 0]"
proof -
  have "0 \<le> res (step example_env (cpu (example_thread ToDo_step []))
                   (entry_point (example_thread ToDo_step [])))"
    by (simp add: example_env_def example_call_def)
  then show ?thesis
    by (simp add: run_thread_step_returns example_env_def example_call_def)
qed

subsection \<open>raise_waiting_threads\<close>

text \<open>The events of the fan-out: one signal per entry of the waiter list, each between
  the lock and the unlock of the same party's mutex.\<close>

lemma count_notify_waiters:
  "count_list (notify_waiters ws) (notify_one t) = count_list ws t"
  by (induction ws) auto

lemma locked_signals_append:
  "locked_signals held (notify_waiters ws @ es) =
     ((\<forall>t \<in> set ws. t \<notin> set held) \<and> locked_signals held es)"
proof (induction ws)
  case Nil
  show ?case by simp
next
  case (Cons w ws)
  have "removeAll w held = held" if "w \<notin> set held"
    using that by simp
  with Cons show ?case by auto
qed

lemma locked_signals_notify_waiters: "locked_signals [] (notify_waiters ws)"
  using locked_signals_append [of "[]" ws "[]"] by simp

lemma length_notify_waiters: "length (notify_waiters ws) = 3 * length ws"
  by (induction ws) auto

lemma set_notify_waiters:
  "set (notify_waiters ws) = (\<Union>t \<in> set ws. {mutex_lock t, notify_one t, mutex_unlock t})"
  by (induction ws) auto

lemma count_list_distinct: "distinct xs \<Longrightarrow> x \<in> set xs \<Longrightarrow> count_list xs x = 1"
  by (induction xs) auto

text \<open>
  C7: \<open>raise_waiting_threads\<close> leaves the waiter set empty and every other field of the
  record as it was; it signals each party's condition variable as often as the party is
  in the waiter set, so exactly once when the parties are distinct; every signal is
  given while the party's own mutex is held, and every mutex is released again; all it
  does to a party is lock, signal, unlock, three events per party; a second call, or a
  call on an empty waiter set, changes nothing and does nothing.
\<close>

theorem raise_waiting_threads_notifies:
  "thread_waiting_threads (fst (raise_waiting_threads thread)) = []
   \<and> (fst (raise_waiting_threads thread))\<lparr>thread_waiting_threads := thread_waiting_threads thread\<rparr>
       = thread
   \<and> (\<forall>t. count_list (snd (raise_waiting_threads thread)) (notify_one t)
            = count_list (thread_waiting_threads thread) t)
   \<and> (distinct (thread_waiting_threads thread) \<longrightarrow>
        (\<forall>t \<in> set (thread_waiting_threads thread).
           count_list (snd (raise_waiting_threads thread)) (notify_one t) = 1))
   \<and> locked_signals [] (snd (raise_waiting_threads thread))
   \<and> set (snd (raise_waiting_threads thread))
       = (\<Union>t \<in> set (thread_waiting_threads thread). {mutex_lock t, notify_one t, mutex_unlock t})
   \<and> length (snd (raise_waiting_threads thread)) = 3 * length (thread_waiting_threads thread)
   \<and> raise_waiting_threads (fst (raise_waiting_threads thread))
       = (fst (raise_waiting_threads thread), [])
   \<and> (thread_waiting_threads thread = [] \<longrightarrow> raise_waiting_threads thread = (thread, []))"
  by (simp add: raise_waiting_threads_def count_notify_waiters locked_signals_notify_waiters
        length_notify_waiters set_notify_waiters count_list_distinct)

text \<open>Three waiting parties: nine events, one signal for party 7.\<close>

theorem raise_waiting_threads_notifies_witness:
  "distinct (thread_waiting_threads (example_thread ToDo_run [5, 7, 9]))
   \<and> snd (raise_waiting_threads (example_thread ToDo_run [5, 7, 9]))
       = [mutex_lock 5, notify_one 5, mutex_unlock 5,
          mutex_lock 7, notify_one 7, mutex_unlock 7,
          mutex_lock 9, notify_one 9, mutex_unlock 9]
   \<and> count_list (snd (raise_waiting_threads (example_thread ToDo_run [5, 7, 9]))) (notify_one 7) = 1
   \<and> fst (raise_waiting_threads (example_thread ToDo_run [5, 7, 9])) = example_thread ToDo_run []
   \<and> raise_waiting_threads (example_thread ToDo_run []) = (example_thread ToDo_run [], [])"
proof -
  have d: "distinct (thread_waiting_threads (example_thread ToDo_run [5, 7, 9]))"
    by (simp add: example_thread_def)
  have m: "7 \<in> set (thread_waiting_threads (example_thread ToDo_run [5, 7, 9]))"
    by (simp add: example_thread_def)
  from raise_waiting_threads_notifies [of "example_thread ToDo_run [5, 7, 9]"] d m
  have "count_list (snd (raise_waiting_threads (example_thread ToDo_run [5, 7, 9]))) (notify_one 7) = 1"
    by blast
  moreover
  from raise_waiting_threads_notifies [of "example_thread ToDo_run []"]
  have "raise_waiting_threads (example_thread ToDo_run []) = (example_thread ToDo_run [], [])"
    by (simp add: example_thread_def)
  ultimately show ?thesis
    using d by (simp add: raise_waiting_threads_def example_thread_def)
qed

subsection \<open>The run-state exit\<close>

text \<open>A trampoline that returns has stored exit; one that finds its record at exit and
  the debugger flag clear returns at once.\<close>

lemma thread_function_returned:
  assumes "fst (thread_function env params kern wakes) = Returned r0"
  shows "map_option to_do (threads (fst (snd (thread_function env params kern wakes))) (thid params))
           = Some ToDo_exit"
  using assms
  by (auto simp: thread_function_def Let_def store_thread_def raise_waiting_threads_def
           split: option.splits prod.splits outcome.splits if_splits)

lemma thread_function_exited:
  assumes "threads kern (thid params) = Some thread"
      and "to_do thread = ToDo_exit"
      and "\<not> wait_for_debugger kern"
  shows "fst (thread_function env params kern wakes) = Returned (arglen params)
         \<and> map_option to_do (threads (fst (snd (thread_function env params kern wakes))) (thid params))
             = Some ToDo_exit"
  using assms
  by (simp add: thread_function_def Let_def run_thread_exit store_thread_def
        raise_waiting_threads_def read_reg_def write_reg_def)

text \<open>
  C3, as the code has it. For a record whose run-state is exit: the run loop returns
  success at once and writes nothing; \<open>raise_waiting_threads\<close> never writes the run-state;
  the teardown of a running thread stores exit; the trampoline, when the debugger flag
  is clear, returns with the record at exit. Whenever the trampoline returns at all,
  the record is at exit.
\<close>

theorem exit_is_kept:
  "(to_do thread = ToDo_exit \<longrightarrow> run_thread env wakes thread = (Returned True, thread, []))
   \<and> to_do (fst (raise_waiting_threads thread)) = to_do thread
   \<and> to_do (fst (delete_thread tid thread h)) = ToDo_exit
   \<and> (threads kern (thid params) = Some thread \<and> to_do thread = ToDo_exit
        \<and> \<not> wait_for_debugger kern
      \<longrightarrow> fst (thread_function env params kern wakes) = Returned (arglen params)
          \<and> map_option to_do
                (threads (fst (snd (thread_function env params kern wakes))) (thid params))
              = Some ToDo_exit)
   \<and> (fst (thread_function env params kern wakes) = Returned r0
      \<longrightarrow> map_option to_do
                (threads (fst (snd (thread_function env params kern wakes))) (thid params))
              = Some ToDo_exit)"
  using thread_function_exited [of kern params thread env wakes]
        thread_function_returned [of env params kern wakes r0]
  by (simp add: run_thread_exit raise_waiting_threads_def delete_thread_def Let_def)

theorem exit_is_kept_witness:
  "to_do (example_thread ToDo_exit [5]) = ToDo_exit
   \<and> run_thread example_env [ToDo_run] (example_thread ToDo_exit [5])
       = (Returned True, example_thread ToDo_exit [5], [])
   \<and> threads (example_kernel3\<lparr>wait_for_debugger := False\<rparr>) (thid example_params)
       = Some (example_thread ToDo_exit [])
   \<and> \<not> wait_for_debugger (example_kernel3\<lparr>wait_for_debugger := False\<rparr>)
   \<and> fst (thread_function example_env example_params
             (example_kernel3\<lparr>wait_for_debugger := False\<rparr>) [ToDo_run]) = Returned 0
   \<and> map_option to_do
        (threads (fst (snd (thread_function example_env example_params
                              (example_kernel3\<lparr>wait_for_debugger := False\<rparr>) [ToDo_run]))) 1)
       = Some ToDo_exit"
proof -
  have t: "threads (example_kernel3\<lparr>wait_for_debugger := False\<rparr>) (thid example_params)
             = Some (example_thread ToDo_exit [])"
    by (simp add: example_kernel3_def example_params_def)
  have d: "\<not> wait_for_debugger (example_kernel3\<lparr>wait_for_debugger := False\<rparr>)"
    by simp
  from exit_is_kept [of "example_thread ToDo_exit [5]" example_env "[ToDo_run]"]
       exit_is_kept [of "example_thread ToDo_exit []" example_env "[ToDo_run]" _ _
                        "example_kernel3\<lparr>wait_for_debugger := False\<rparr>" example_params] t d
  show ?thesis
    by (simp add: example_params_def)
qed

text \<open>
  C3 as stated fails for the trampoline: with the debugger flag set it stores wait
  whatever the run-state was. Here the record is at exit when the trampoline starts;
  the trampoline puts it back to wait, and its host thread blocks there.
\<close>

theorem trampoline_exit_counterexample:
  "map_option to_do (threads example_kernel3 (thid example_params)) = Some ToDo_exit
   \<and> fst (thread_function example_env example_params example_kernel3 []) = Blocked
   \<and> map_option to_do
        (threads (fst (snd (thread_function example_env example_params example_kernel3 [])))
           (thid example_params))
       = Some ToDo_wait"
  by (simp add: thread_function_def example_kernel3_def example_kernel_def example_params_def
        Let_def run_thread_wait_nil store_thread_def)

subsection \<open>The pending set and the thread table\<close>

text \<open>What each operation does to the domains of the two tables.\<close>

lemma dom_emplace: "dom (emplace k v m) = insert k (dom m)"
  by (auto simp: emplace_def split: option.splits)

lemma create_thread_tables:
  assumes "dom (waiting_threads kern) \<subseteq> dom (threads kern)"
  shows "dom (waiting_threads (fst (snd (create_thread env entry kern mem nm p sz opt))))
           \<subseteq> dom (threads (fst (snd (create_thread env entry kern mem nm p sz opt))))"
  using assms
  by (auto simp: create_thread_def get_next_uid_def Let_def dom_emplace
           split: prod.splits option.splits)

lemma start_thread_tables:
  "dom (threads (fst (snd (start_thread env nrd kern tid len ap)))) = dom (threads kern)
   \<and> (waiting_threads (fst (snd (start_thread env nrd kern tid len ap))) = waiting_threads kern
      \<or> waiting_threads (fst (snd (start_thread env nrd kern tid len ap)))
           = (waiting_threads kern)(tid := None))"
  by (auto simp: start_thread_def Let_def store_thread_def split: option.splits prod.splits)

lemma thread_function_tables:
  "dom (threads (fst (snd (thread_function env params kern wakes)))) = dom (threads kern)
   \<and> waiting_threads (fst (snd (thread_function env params kern wakes))) = waiting_threads kern"
  by (auto simp: thread_function_def Let_def store_thread_def
           split: option.splits prod.splits outcome.splits)

lemma copy_stack_tables:
  "dom (threads (fst (snd (copy_stack tid thread_id ap kern mem)))) = dom (threads kern)
   \<and> waiting_threads (fst (snd (copy_stack tid thread_id ap kern mem))) = waiting_threads kern"
  by (auto simp: copy_stack_def Let_def store_thread_def split: option.splits)

lemma apply_op_tables:
  assumes "dom (waiting_threads (fst s)) \<subseteq> dom (threads (fst s))"
  shows "dom (waiting_threads (fst (apply_op env op s))) \<subseteq> dom (threads (fst (apply_op env op s)))"
proof (cases s)
  case (Pair kern mem)
  show ?thesis
  proof (cases op)
    case (op_create_thread entry nm p sz opt)
    with Pair assms create_thread_tables [of kern env entry mem nm p sz opt]
    show ?thesis by simp
  next
    case (op_start_thread nrd tid len ap)
    with Pair assms start_thread_tables [of env nrd kern tid len ap]
    show ?thesis by (fastforce split: if_splits)
  next
    case (op_thread_function params wakes)
    with Pair assms thread_function_tables [of env params kern wakes]
    show ?thesis by simp
  next
    case (op_copy_stack tid thread_id ap)
    with Pair assms copy_stack_tables [of tid thread_id ap kern mem]
    show ?thesis by simp
  qed
qed

lemma run_ops_tables:
  assumes "dom (waiting_threads (fst s)) \<subseteq> dom (threads (fst s))"
  shows "dom (waiting_threads (fst (fold (apply_op env) ops s)))
           \<subseteq> dom (threads (fst (fold (apply_op env) ops s)))"
  using assms
proof (induction ops arbitrary: s)
  case Nil
  then show ?case by simp
next
  case (Cons op ops)
  from Cons.IH [OF apply_op_tables [OF Cons.prems]] show ?case by simp
qed

lemma create_thread_inserts:
  assumes "fst (create_thread env entry kern mem nm p sz opt) = Inr tid"
  shows "tid \<in> dom (threads (fst (snd (create_thread env entry kern mem nm p sz opt))))
         \<and> tid \<in> dom (waiting_threads (fst (snd (create_thread env entry kern mem nm p sz opt))))"
  using assms
  by (auto simp: create_thread_def get_next_uid_def Let_def emplace_def
           split: prod.splits option.splits)

lemma start_thread_asserts:
  assumes "waiting_threads kern tid \<noteq> None" and "threads kern tid = None"
  shows "start_thread env nrd kern tid len ap = (Aborted assert_failed, kern, None, [])"
  using assms by (auto simp: start_thread_def)

text \<open>
  C10: every id in the pending set is in the thread table. This holds after any
  sequence of this file's operations when it held before; a successful \<open>create_thread\<close>
  puts the new id into both tables; \<open>start_thread\<close> leaves the ids of the thread table
  as they were and takes at most the started id out of the pending set; and an id that
  is pending and not in the table makes its \<^verbatim>\<open>assert\<close> fail.
\<close>

theorem pending_threads_in_table:
  "(dom (waiting_threads kern) \<subseteq> dom (threads kern)
      \<longrightarrow> dom (waiting_threads (fst (run_ops env ops (kern, mem))))
            \<subseteq> dom (threads (fst (run_ops env ops (kern, mem)))))
   \<and> (fst (create_thread env entry kern mem nm p sz opt) = Inr tid
      \<longrightarrow> tid \<in> dom (threads (fst (snd (create_thread env entry kern mem nm p sz opt))))
          \<and> tid \<in> dom (waiting_threads (fst (snd (create_thread env entry kern mem nm p sz opt)))))
   \<and> dom (threads (fst (snd (start_thread env nrd kern t len ap)))) = dom (threads kern)
   \<and> (waiting_threads (fst (snd (start_thread env nrd kern t len ap))) = waiting_threads kern
      \<or> waiting_threads (fst (snd (start_thread env nrd kern t len ap)))
           = (waiting_threads kern)(t := None))
   \<and> (waiting_threads kern t \<noteq> None \<and> threads kern t = None
      \<longrightarrow> start_thread env nrd kern t len ap = (Aborted assert_failed, kern, None, []))"
  using run_ops_tables [of "(kern, mem)" env ops]
        create_thread_inserts [of env entry kern mem nm p sz opt tid]
        start_thread_tables [of env nrd kern t len ap]
        start_thread_asserts [of kern t env nrd len ap]
  by (simp add: run_ops_def)

text \<open>Two threads created and the first one started: thread 2 is pending, both are in
  the table.\<close>

theorem pending_threads_in_table_witness:
  "dom (waiting_threads example_kernel) \<subseteq> dom (threads example_kernel)
   \<and> dom (waiting_threads (fst (run_ops example_env
             [op_create_thread 0x81000000 ''main'' 160 0x1000 None,
              op_create_thread 0x81000000 ''worker'' 160 0x1000 None,
              op_start_thread True 1 0 0]
             (example_kernel, example_mem))))
       \<subseteq> dom (threads (fst (run_ops example_env
             [op_create_thread 0x81000000 ''main'' 160 0x1000 None,
              op_create_thread 0x81000000 ''worker'' 160 0x1000 None,
              op_start_thread True 1 0 0]
             (example_kernel, example_mem))))
   \<and> dom (waiting_threads (fst (run_ops example_env
             [op_create_thread 0x81000000 ''main'' 160 0x1000 None,
              op_create_thread 0x81000000 ''worker'' 160 0x1000 None,
              op_start_thread True 1 0 0]
             (example_kernel, example_mem)))) = {2}
   \<and> dom (threads (fst (run_ops example_env
             [op_create_thread 0x81000000 ''main'' 160 0x1000 None,
              op_create_thread 0x81000000 ''worker'' 160 0x1000 None,
              op_start_thread True 1 0 0]
             (example_kernel, example_mem)))) = {1, 2}"
proof -
  have h: "dom (waiting_threads example_kernel) \<subseteq> dom (threads example_kernel)"
    by (simp add: example_kernel_def)
  have w: "dom (waiting_threads (fst (run_ops example_env
             [op_create_thread 0x81000000 ''main'' 160 0x1000 None,
              op_create_thread 0x81000000 ''worker'' 160 0x1000 None,
              op_start_thread True 1 0 0]
             (example_kernel, example_mem)))) = {2}"
    by (auto simp: run_ops_def create_thread_def get_next_uid_def Let_def example_env_def
          example_kernel_def emplace_def start_thread_def split: prod.splits if_splits)
  have t: "dom (threads (fst (run_ops example_env
             [op_create_thread 0x81000000 ''main'' 160 0x1000 None,
              op_create_thread 0x81000000 ''worker'' 160 0x1000 None,
              op_start_thread True 1 0 0]
             (example_kernel, example_mem)))) = {1, 2}"
    by (auto simp: run_ops_def create_thread_def get_next_uid_def Let_def example_env_def
          example_kernel_def emplace_def start_thread_def split: prod.splits if_splits)
  from pending_threads_in_table [of example_kernel example_env
             "[op_create_thread 0x81000000 ''main'' 160 0x1000 None,
              op_create_thread 0x81000000 ''worker'' 160 0x1000 None,
              op_start_thread True 1 0 0]" example_mem] h w t
  show ?thesis by blast
qed

end
